theory Spec2Isabelle
  imports Main "HOL-Library.Word"
begin

unbundle bit_operations_syntax

section \<open>Values shared by the cloud functions\<close>

text \<open>
  An instant is an integer counting microseconds (the resolution of
  \<open>datetime.utcnow()\<close>); a \<open>timedelta\<close> is a number of microseconds.
\<close>

type_synonym datetime = int

definition timedelta_minutes :: "int \<Rightarrow> int" where
  "timedelta_minutes n = n * 60000000"

definition timedelta_hours :: "int \<Rightarrow> int" where
  "timedelta_hours n = n * 3600000000"

definition timedelta_days :: "int \<Rightarrow> int" where
  "timedelta_days n = n * 86400000000"

text \<open>
  A parsed JSON value. An object holds the items of the parsed dictionary, so the keys of
  one object are pairwise distinct. Numbers are the integers.
\<close>

datatype json =
    JNull
  | JBool bool
  | JNum int
  | JStr string
  | JArr "json list"
  | JObj "(string \<times> json) list"

text \<open>Python's truth value of a parsed JSON value, as tested by \<open>if not x\<close>.\<close>

fun truthy :: "json \<Rightarrow> bool" where
  "truthy JNull = False"
| "truthy (JBool b) = b"
| "truthy (JNum n) = (n \<noteq> 0)"
| "truthy (JStr s) = (s \<noteq> [])"
| "truthy (JArr xs) = (xs \<noteq> [])"
| "truthy (JObj kvs) = (kvs \<noteq> [])"

text \<open>\<open>d.get(name, default)\<close> on a field that may be absent.\<close>

definition dict_get :: "'a option \<Rightarrow> 'a \<Rightarrow> 'a" where
  "dict_get field dflt = (case field of None \<Rightarrow> dflt | Some v \<Rightarrow> v)"

text \<open>An exception, with the text that \<open>str(e)\<close> gives.\<close>

datatype exn = Exn string

text \<open>
  A Python \<open>datetime\<close> is naive or timezone-aware. \<open>datetime.utcnow()\<close> gives a naive
  one, and so does subtracting a \<open>timedelta\<close> from it; the client of the store gives
  every stored timestamp back as a timezone-aware one. Two values of the same kind
  compare by their instants; comparing a naive with an aware one raises \<open>TypeError\<close>.
\<close>

datatype py_datetime = Naive datetime | Aware datetime

fun dt_gt :: "py_datetime \<Rightarrow> py_datetime \<Rightarrow> exn + bool" where
  "dt_gt (Naive a) (Naive b) = Inr (a > b)"
| "dt_gt (Aware a) (Aware b) = Inr (a > b)"
| "dt_gt a b =
     Inl (Exn (''can'' @ [CHR 0x27] @ ''t compare offset-naive and offset-aware datetimes''))"

text \<open>
  The comprehension \<open>[ts for ts in window if ts > bound]\<close>: it raises at the first
  element whose comparison raises.
\<close>

fun newer_than :: "py_datetime list \<Rightarrow> py_datetime \<Rightarrow> exn + py_datetime list" where
  "newer_than [] bound = Inr []"
| "newer_than (ts # window) bound =
     (case dt_gt ts bound of
        Inl e \<Rightarrow> Inl e
      | Inr keep \<Rightarrow>
          (case newer_than window bound of
             Inl e \<Rightarrow> Inl e
           | Inr rest \<Rightarrow> Inr (if keep then ts # rest else rest)))"

text \<open>The module constant \<open>RATE_LIMITS\<close> of the AI proxy.\<close>

record rate_limits =
  requests_per_minute :: int
  requests_per_hour :: int
  requests_per_day :: int
  requests_per_device :: int

definition RATE_LIMITS :: rate_limits where
  "RATE_LIMITS = \<lparr> requests_per_minute = 10, requests_per_hour = 100,
                    requests_per_day = 500, requests_per_device = 1000 \<rparr>"

section \<open>The document store\<close>

text \<open>
  A document of the collection \<open>ai_usage_tracking\<close>. Every field may be absent: the
  code reads each one with \<open>.get(name, default)\<close>. A timestamp is kept as its instant;
  \<open>to_dict\<close> hands it to the handler as a timezone-aware value.
\<close>

record usage_doc =
  created_at :: "datetime option"
  total_requests :: "int option"
  successful_requests :: "int option"
  total_tokens :: "int option"
  last_request :: "datetime option"
  requests_this_minute :: "datetime list option"
  requests_this_hour :: "datetime list option"
  requests_this_day :: "datetime list option"

text \<open>A document of the collection \<open>shared_ai_keys\<close>, with its document id.\<close>

record key_doc =
  key_id :: string
  active :: bool
  used_today :: "int option"
  daily_quota :: "int option"
  api_key :: "string option"

text \<open>
  The database: the usage documents by device id, and the key documents listed in the
  order of their document ids (the order in which the store breaks ties of a sort).
\<close>

record firestore =
  usage_tracking :: "string \<rightharpoonup> usage_doc"
  shared_ai_keys :: "key_doc list"

text \<open>
  Calls to the store can raise. Which calls of one handler run raise is part of the
  input of the model.
\<close>

record store_faults =
  get_raises :: bool
  set_raises :: bool
  update_raises :: bool
  query_raises :: bool

datatype store_error = Unavailable | NotFound

definition doc_get :: "store_faults \<Rightarrow> firestore \<Rightarrow> string \<Rightarrow> store_error + usage_doc option" where
  "doc_get f db device_id =
     (if get_raises f then Inl Unavailable else Inr (usage_tracking db device_id))"

definition doc_set :: "store_faults \<Rightarrow> firestore \<Rightarrow> string \<Rightarrow> usage_doc \<Rightarrow> store_error + firestore" where
  "doc_set f db device_id d =
     (if set_raises f then Inl Unavailable
      else Inr (db\<lparr>usage_tracking := (usage_tracking db)(device_id \<mapsto> d)\<rparr>))"

text \<open>\<open>update\<close> raises \<open>NotFound\<close> on a document that does not exist.\<close>

definition doc_update ::
  "store_faults \<Rightarrow> firestore \<Rightarrow> string \<Rightarrow> (usage_doc \<Rightarrow> usage_doc) \<Rightarrow> store_error + firestore" where
  "doc_update f db device_id tr =
     (if update_raises f then Inl Unavailable
      else case usage_tracking db device_id of
             None \<Rightarrow> Inl NotFound
           | Some d \<Rightarrow> Inr (db\<lparr>usage_tracking := (usage_tracking db)(device_id \<mapsto> tr d)\<rparr>))"

text \<open>
  The store's field transforms. \<open>Increment n\<close> adds to a number and sets an absent field
  to \<open>n\<close>. \<open>ArrayUnion vs\<close> adds, at the end, each given element that the array does not
  hold yet, and sets an absent field to the given elements.
\<close>

definition stored_timestamps :: "datetime list option \<Rightarrow> py_datetime list" where
  "stored_timestamps field = map Aware (dict_get field [])"

definition Increment :: "int \<Rightarrow> int option \<Rightarrow> int option" where
  "Increment n field = Some (dict_get field 0 + n)"

definition ArrayUnion :: "'a list \<Rightarrow> 'a list option \<Rightarrow> 'a list option" where
  "ArrayUnion vs field =
     Some (foldl (\<lambda>acc v. if v \<in> set acc then acc else acc @ [v]) (dict_get field []) vs)"

section \<open>The AI proxy: quota check and usage tracking\<close>

definition check_rate_limits ::
  "datetime \<Rightarrow> store_faults \<Rightarrow> firestore \<Rightarrow> string \<Rightarrow> firestore \<times> (bool \<times> string)" where
  "check_rate_limits now f db device_id =
     (case doc_get f db device_id of
        Inl e \<Rightarrow> (db, (False, ''Service error''))
      | Inr None \<Rightarrow>
          (case doc_set f db device_id
                  \<lparr> created_at = Some now, total_requests = Some 0,
                    successful_requests = None, total_tokens = None, last_request = None,
                    requests_this_minute = Some [], requests_this_hour = Some [],
                    requests_this_day = Some [] \<rparr> of
             Inl e \<Rightarrow> (db, (False, ''Service error''))
           | Inr db' \<Rightarrow> (db', (True, ''First time user'')))
      | Inr (Some usage_data) \<Rightarrow>
          (if dict_get (total_requests usage_data) 0 \<ge> requests_per_device RATE_LIMITS
           then (db, (False, ''Demo limit reached. Please upgrade to continue.''))
           else
             let minute_ago = Naive (now - timedelta_minutes 1);
                 hour_ago = Naive (now - timedelta_hours 1);
                 day_ago = Naive (now - timedelta_days 1)
             in
              (case newer_than (stored_timestamps (requests_this_minute usage_data)) minute_ago of
                 Inl e \<Rightarrow> (db, (False, ''Service error''))
               | Inr this_minute \<Rightarrow>
                  (case newer_than (stored_timestamps (requests_this_hour usage_data)) hour_ago of
                     Inl e \<Rightarrow> (db, (False, ''Service error''))
                   | Inr this_hour \<Rightarrow>
                      (case newer_than (stored_timestamps (requests_this_day usage_data)) day_ago of
                         Inl e \<Rightarrow> (db, (False, ''Service error''))
                       | Inr this_day \<Rightarrow>
                          (if int (length this_minute) \<ge> requests_per_minute RATE_LIMITS
                           then (db, (False, ''Rate limit exceeded. Please wait a minute.''))
                           else if int (length this_hour) \<ge> requests_per_hour RATE_LIMITS
                           then (db, (False, ''Hourly limit reached. Please wait.''))
                           else if int (length this_day) \<ge> requests_per_day RATE_LIMITS
                           then (db, (False, ''Daily limit reached. Try again tomorrow.''))
                           else (db, (True, ''Within limits''))))))))"

definition track_usage ::
  "datetime \<Rightarrow> store_faults \<Rightarrow> firestore \<Rightarrow> string \<Rightarrow> bool \<Rightarrow> int \<Rightarrow> firestore" where
  "track_usage now f db device_id success tokens_used =
     (case doc_update f db device_id
             (\<lambda>d. d\<lparr> total_requests := Increment 1 (total_requests d),
                     successful_requests :=
                       Increment (if success then 1 else 0) (successful_requests d),
                     total_tokens := Increment tokens_used (total_tokens d),
                     last_request := Some now,
                     requests_this_minute := ArrayUnion [now] (requests_this_minute d),
                     requests_this_hour := ArrayUnion [now] (requests_this_hour d),
                     requests_this_day := ArrayUnion [now] (requests_this_day d) \<rparr>) of
        Inl e \<Rightarrow> db
      | Inr db' \<Rightarrow> db')"

section \<open>Requests, responses and the platform\<close>

datatype req_body = NoJson | BadJson | Json json

record request =
  request_method :: string
  headers :: "(string \<times> string) list"
  remote_addr :: string
  args :: "(string \<times> string) list"
  body :: req_body

text \<open>
  \<open>request.get_json()\<close> gives \<open>None\<close> for a request that carries no JSON and raises
  on a body that does not parse; with \<open>silent=True\<close> it gives \<open>None\<close> in both cases.
\<close>

definition get_json :: "request \<Rightarrow> exn + json option" where
  "get_json r =
     (case body r of
        NoJson \<Rightarrow> Inr None
      | BadJson \<Rightarrow> Inl (Exn ''400 Bad Request'')
      | Json j \<Rightarrow> Inr (Some j))"

definition get_json_silent :: "request \<Rightarrow> json option" where
  "get_json_silent r = (case body r of Json j \<Rightarrow> Some j | _ \<Rightarrow> None)"

definition truthy_opt :: "json option \<Rightarrow> bool" where
  "truthy_opt v = (case v of None \<Rightarrow> False | Some j \<Rightarrow> truthy j)"

fun type_name :: "json \<Rightarrow> string" where
  "type_name JNull = ''NoneType''"
| "type_name (JBool b) = ''bool''"
| "type_name (JNum n) = ''int''"
| "type_name (JStr s) = ''str''"
| "type_name (JArr xs) = ''list''"
| "type_name (JObj kvs) = ''dict''"

text \<open>The \<open>AttributeError\<close> of calling \<open>.get\<close> on a value that is not a dictionary.\<close>

definition no_attribute_get :: "string \<Rightarrow> exn" where
  "no_attribute_get ty =
     Exn ([CHR 0x27] @ ty @ [CHR 0x27] @ '' object has no attribute ''
          @ [CHR 0x27] @ ''get'' @ [CHR 0x27])"

text \<open>\<open>value.get(name)\<close> on a parsed body: \<open>None\<close> stands for a missing key.\<close>

definition py_get :: "json option \<Rightarrow> string \<Rightarrow> exn + json option" where
  "py_get v name =
     (case v of
        None \<Rightarrow> Inl (no_attribute_get ''NoneType'')
      | Some (JObj kvs) \<Rightarrow> Inr (map_of kvs name)
      | Some j \<Rightarrow> Inl (no_attribute_get (type_name j)))"

text \<open>
  What the handlers take from libraries and services outside the repository: the SHA-256
  digest of a byte string, \<open>json.dumps(_, sort_keys=True)\<close>, \<open>datetime.isoformat\<close>,
  \<open>str\<close> of a parsed value that is not a string, and the latest versions of the
  secrets in the secret manager (a secret that cannot be read is absent).
\<close>

record platform =
  sha256 :: "string \<Rightarrow> 256 word"
  json_dumps :: "json \<Rightarrow> string"
  isoformat :: "datetime \<Rightarrow> string"
  py_repr :: "json \<Rightarrow> string"
  secret_versions :: "string \<rightharpoonup> string"

definition hex_digit :: "nat \<Rightarrow> char" where
  "hex_digit n = ''0123456789abcdef'' ! n"

text \<open>\<open>hexdigest()\<close>: the 64 hexadecimal digits of the digest, most significant first.\<close>

definition hexdigest :: "256 word \<Rightarrow> string" where
  "hexdigest w = map (\<lambda>i. hex_digit (unat (drop_bit (4 * (63 - i)) w AND 15))) [0..<64]"

definition py_str :: "platform \<Rightarrow> json \<Rightarrow> string" where
  "py_str P j = (case j of JStr s \<Rightarrow> s | _ \<Rightarrow> py_repr P j)"

definition get_secret :: "platform \<Rightarrow> string \<Rightarrow> exn + string" where
  "get_secret P secret_name =
     (case secret_versions P secret_name of
        None \<Rightarrow> Inl (Exn ''secret unavailable'')
      | Some v \<Rightarrow> Inr v)"

text \<open>A response: the payload and the status code (the headers are left out).\<close>

datatype payload = Empty | Text string | Body json

type_synonym response = "payload \<times> int"

section \<open>The AI proxy: fingerprint, key pool and endpoints\<close>

definition generate_device_id :: "platform \<Rightarrow> request \<Rightarrow> exn + string" where
  "generate_device_id P r =
     (let ip = dict_get (map_of (headers r) ''X-Forwarded-For'') (remote_addr r);
          user_agent = dict_get (map_of (headers r) ''User-Agent'') []
      in case get_json r of
           Inl e \<Rightarrow> Inl e
         | Inr j \<Rightarrow>
             (case py_get j ''device_info'' of
                Inl e \<Rightarrow> Inl e
              | Inr info \<Rightarrow>
                  let camera_info = dict_get info (JObj []);
                      device_string = ip @ '':'' @ user_agent @ '':'' @ json_dumps P camera_info
                  in Inr (take 16 (hexdigest (sha256 P device_string)))))"

text \<open>
  The two queries of the key pool. Both sort by \<open>used_today\<close> (the first by its
  \<open>order_by\<close>, the second because the store orders a query by the field of its
  inequality filter), ties in the order of the document ids; a document without the
  field is in neither result.
\<close>

definition active_by_usage :: "firestore \<Rightarrow> key_doc list" where
  "active_by_usage db =
     take 1 (sort_key (\<lambda>k. dict_get (used_today k) 0)
               (filter (\<lambda>k. active k \<and> used_today k \<noteq> None) (shared_ai_keys db)))"

definition active_below_1000 :: "firestore \<Rightarrow> key_doc list" where
  "active_below_1000 db =
     take 1 (sort_key (\<lambda>k. dict_get (used_today k) 0)
               (filter (\<lambda>k. active k \<and> (case used_today k of None \<Rightarrow> False | Some u \<Rightarrow> u < 1000))
                  (shared_ai_keys db)))"

definition decrypt_key :: "platform \<Rightarrow> key_doc \<Rightarrow> string option" where
  "decrypt_key P k =
     (case get_secret P (''ai-key-'' @ key_id k) of Inl e \<Rightarrow> None | Inr v \<Rightarrow> Some v)"

text \<open>A query that raises is not caught here: the exception reaches the caller.\<close>

definition get_next_available_key ::
  "platform \<Rightarrow> store_faults \<Rightarrow> firestore \<Rightarrow> exn + string option" where
  "get_next_available_key P f db =
     (if query_raises f then Inl (Exn ''store unavailable'')
      else case active_by_usage db of
             [] \<Rightarrow> Inr None
           | key_data # _ \<Rightarrow>
               if dict_get (used_today key_data) 0 \<ge> dict_get (daily_quota key_data) 1000
               then (case active_below_1000 db of
                       [] \<Rightarrow> Inr None
                     | key_doc # _ \<Rightarrow> Inr (decrypt_key P key_doc))
               else Inr (decrypt_key P key_data))"

text \<open>
  \<open>proxy_to_gemini\<close> only talks to the upstream service and catches every exception.
  The dictionary it returns is an input of the model: a success with the upstream
  response and its token count, or a failure with its error text.
\<close>

datatype proxy_result = Succeeded json int | Failed string

fun result_success :: "proxy_result \<Rightarrow> bool" where
  "result_success (Succeeded resp n) = True"
| "result_success (Failed err) = False"

fun result_tokens_used :: "proxy_result \<Rightarrow> int" where
  "result_tokens_used (Succeeded resp n) = n"
| "result_tokens_used (Failed err) = 0"

text \<open>What one run of \<open>ai_proxy\<close> meets: the clock at both reads, the store, the upstream.\<close>

record proxy_run =
  check_time :: datetime
  track_time :: datetime
  faults :: store_faults
  upstream :: proxy_result

definition internal_server_error :: response where
  "internal_server_error =
     (Body (JObj [(''error'', JStr ''Internal server error''),
                  (''message'', JStr ''An unexpected error occurred'')]), 500)"

definition ai_proxy :: "platform \<Rightarrow> proxy_run \<Rightarrow> firestore \<Rightarrow> request \<Rightarrow> firestore \<times> response" where
  "ai_proxy P e db r =
     (if request_method r = ''OPTIONS'' then (db, (Text [], 204))
      else if request_method r \<noteq> ''POST''
      then (db, (Body (JObj [(''error'', JStr ''Method not allowed'')]), 405))
      else
       (case get_json r of
          Inl x \<Rightarrow> (db, internal_server_error)
        | Inr request_data \<Rightarrow>
           (if \<not> truthy_opt request_data
            then (db, (Body (JObj [(''error'', JStr ''Invalid request body'')]), 400))
            else
             (case generate_device_id P r of
                Inl x \<Rightarrow> (db, internal_server_error)
              | Inr device_id \<Rightarrow>
                 (case check_rate_limits (check_time e) (faults e) db device_id of
                    (db1, (allowed, message)) \<Rightarrow>
                     (if \<not> allowed
                      then (db1, (Body (JObj [(''error'', JStr ''Rate limit exceeded''),
                                              (''message'', JStr message),
                                              (''upgrade_url'', JStr ''https://anava.ai/upgrade'')]),
                                  429))
                      else
                       (case get_next_available_key P (faults e) db1 of
                          Inl x \<Rightarrow> (db1, internal_server_error)
                        | Inr key \<Rightarrow>
                           (if key = None \<or> key = Some []
                            then (db1, (Body (JObj [(''error'', JStr ''Service temporarily unavailable''),
                                                    (''message'',
                                                     JStr ''No API keys available. Please try again later.'')]),
                                        503))
                            else
                             (let result = upstream e;
                                  db2 = track_usage (track_time e) (faults e) db1 device_id
                                          (result_success result) (result_tokens_used result)
                              in (case result of
                                    Succeeded resp n \<Rightarrow> (db2, (Body resp, 200))
                                  | Failed err \<Rightarrow>
                                      (db2, (Body (JObj [(''error'', JStr err),
                                                         (''message'', JStr ''Failed to process AI request'')]),
                                             500))))))))))))"

definition get_device_status ::
  "platform \<Rightarrow> datetime \<Rightarrow> store_faults \<Rightarrow> firestore \<Rightarrow> request \<Rightarrow> response" where
  "get_device_status P now f db r =
     (if request_method r = ''OPTIONS'' then (Text [], 204)
      else
        let failed = (Body (JObj [(''error'', JStr ''Failed to get status'')]), 500);
            arg = map_of (args r) ''device_id''
        in case (if arg = None \<or> arg = Some [] then generate_device_id P r
                 else Inr (dict_get arg [])) of
             Inl x \<Rightarrow> failed
           | Inr device_id \<Rightarrow>
               (case doc_get f db device_id of
                  Inl x \<Rightarrow> failed
                | Inr None \<Rightarrow>
                    (Body (JObj [(''device_id'', JStr device_id),
                                 (''status'', JStr ''new''),
                                 (''requests_used'', JNum 0),
                                 (''requests_remaining'', JNum (requests_per_device RATE_LIMITS)),
                                 (''daily_limit'', JNum (requests_per_day RATE_LIMITS))]), 200)
                | Inr (Some usage_data) \<Rightarrow>
                    let total = dict_get (total_requests usage_data) 0
                    in (Body (JObj [(''device_id'', JStr device_id),
                                    (''status'', JStr (if total < requests_per_device RATE_LIMITS
                                                       then ''active'' else ''limit_reached'')),
                                    (''requests_used'', JNum total),
                                    (''requests_remaining'',
                                       JNum (max 0 (requests_per_device RATE_LIMITS - total))),
                                    (''daily_limit'', JNum (requests_per_day RATE_LIMITS)),
                                    (''created_at'',
                                       JStr (isoformat P (dict_get (created_at usage_data) now)))]),
                        200)))"

section \<open>The device authenticator\<close>

text \<open>
  The Firebase Admin SDK as the handler sees it: whether an app is registered, and the
  signer, which gives the token as bytes or as text, or raises.
\<close>

datatype signed = TokenBytes string | TokenText string

record firebase_admin =
  apps_initialized :: bool
  create_custom_token :: "string \<Rightarrow> exn + signed"

text \<open>The handler of \<open>temp-function-update/device-auth\<close>.\<close>

definition device_authenticator_update ::
  "platform \<Rightarrow> firebase_admin \<Rightarrow> request \<Rightarrow> response" where
  "device_authenticator_update P fb r =
     (if request_method r = ''OPTIONS'' then (Text [], 204)
      else if \<not> apps_initialized fb
      then (Body (JObj [(''error'', JStr ''Firebase SDK not initialized'')]), 500)
      else if request_method r \<noteq> ''POST''
      then (Body (JObj [(''error'', JStr ''Method not allowed'')]), 405)
      else
        let failed = (\<lambda>x. case x of Exn msg \<Rightarrow>
                        (Body (JObj [(''error'', JStr (''Token generation error: '' @ msg))]), 500));
            req_json = get_json_silent r
        in if \<not> truthy_opt req_json
           then (Body (JObj [(''error'', JStr ''Bad Request: No JSON body'')]), 400)
           else
            (case py_get req_json ''device_id'' of
               Inl x \<Rightarrow> failed x
             | Inr device_id \<Rightarrow>
                (if \<not> truthy_opt device_id
                 then (Body (JObj [(''error'',
                                    JStr (''Bad Request: '' @ [CHR 0x27] @ ''device_id''
                                          @ [CHR 0x27] @ '' missing''))]), 400)
                 else
                  (case create_custom_token fb (py_str P (dict_get device_id JNull)) of
                     Inl x \<Rightarrow> failed x
                   | Inr (TokenBytes t) \<Rightarrow> (Body (JObj [(''firebase_custom_token'', JStr t)]), 200)
                   | Inr (TokenText t) \<Rightarrow> (Body (JObj [(''firebase_custom_token'', JStr t)]), 200)))))"

text \<open>The handler of \<open>temp-functions/device-auth\<close>; it decodes the token unconditionally.\<close>

definition device_authenticator ::
  "platform \<Rightarrow> firebase_admin \<Rightarrow> request \<Rightarrow> response" where
  "device_authenticator P fb r =
     (if \<not> apps_initialized fb then (Text ''Firebase SDK not init'', 500)
      else if request_method r \<noteq> ''POST'' then (Text ''Method Not Allowed'', 405)
      else
        let req_json = get_json_silent r
        in if \<not> truthy_opt req_json then (Text ''Bad Request: No JSON'', 400)
           else
            (case py_get req_json ''device_id'' of
               Inl x \<Rightarrow> (Text ''Token gen error'', 500)
             | Inr device_id \<Rightarrow>
                (if \<not> truthy_opt device_id
                 then (Text (''Bad Request: '' @ [CHR 0x27] @ ''device_id''
                             @ [CHR 0x27] @ '' missing''), 400)
                 else
                  (case create_custom_token fb (py_str P (dict_get device_id JNull)) of
                     Inl x \<Rightarrow> (Text ''Token gen error'', 500)
                   | Inr (TokenBytes t) \<Rightarrow> (Body (JObj [(''firebase_custom_token'', JStr t)]), 200)
                   | Inr (TokenText t) \<Rightarrow> (Text ''Token gen error'', 500)))))"

section \<open>Notions used to state the properties\<close>

text \<open>The lifetime counter of a device as the handlers read it: 0 without a document.\<close>

definition total_of :: "firestore \<Rightarrow> string \<Rightarrow> int" where
  "total_of db device_id =
     (case usage_tracking db device_id of
        None \<Rightarrow> 0
      | Some d \<Rightarrow> dict_get (total_requests d) 0)"

text \<open>Quota checks for one device, one after the other, each at its own time.\<close>

definition check_repeatedly :: "firestore \<Rightarrow> string \<Rightarrow> (datetime \<times> store_faults) list \<Rightarrow> firestore" where
  "check_repeatedly db device_id calls =
     foldl (\<lambda>s (now, f). fst (check_rate_limits now f s device_id)) db calls"

text \<open>The operations that write to the store, and a sequence of them.\<close>

datatype operation =
    CheckQuota string datetime store_faults
  | RecordUsage string datetime store_faults bool int
  | ProxyRequest platform proxy_run request

fun apply_operation :: "firestore \<Rightarrow> operation \<Rightarrow> firestore" where
  "apply_operation db (CheckQuota device_id now f) = fst (check_rate_limits now f db device_id)"
| "apply_operation db (RecordUsage device_id now f success tokens_used) =
     track_usage now f db device_id success tokens_used"
| "apply_operation db (ProxyRequest P e r) = fst (ai_proxy P e db r)"

text \<open>
  The three signals of a request that the fingerprint is computed from: the forwarded
  address (or else the peer address), the user agent, and the \<open>device_info\<close> of a
  body that is a JSON object.
\<close>

definition source_ip :: "request \<Rightarrow> string" where
  "source_ip r = dict_get (map_of (headers r) ''X-Forwarded-For'') (remote_addr r)"

definition user_agent_of :: "request \<Rightarrow> string" where
  "user_agent_of r = dict_get (map_of (headers r) ''User-Agent'') []"

definition device_info_of :: "request \<Rightarrow> json option" where
  "device_info_of r =
     (case body r of
        Json (JObj kvs) \<Rightarrow> Some (dict_get (map_of kvs ''device_info'') (JObj []))
      | _ \<Rightarrow> None)"

text \<open>
  A request whose body is missing \<open>device_id\<close>: the body is not a JSON object, or it is
  one whose \<open>device_id\<close> is absent or taken for false (so also the empty string).
\<close>

definition missing_device_id :: "request \<Rightarrow> bool" where
  "missing_device_id r =
     (case body r of
        Json (JObj kvs) \<Rightarrow> \<not> truthy_opt (map_of kvs ''device_id'')
      | _ \<Rightarrow> True)"

text \<open>
  A proxy request that gets as far as the upstream call: a POST with a body that is taken
  for true, a fingerprint, a quota check that allows it and a key that is not empty.
\<close>

definition reaches_upstream :: "platform \<Rightarrow> proxy_run \<Rightarrow> firestore \<Rightarrow> request \<Rightarrow> bool" where
  "reaches_upstream P e db r =
     (request_method r = ''POST'' \<and>
      (case get_json r of
         Inl x \<Rightarrow> False
       | Inr request_data \<Rightarrow>
           truthy_opt request_data \<and>
           (case generate_device_id P r of
              Inl x \<Rightarrow> False
            | Inr device_id \<Rightarrow>
               (case check_rate_limits (check_time e) (faults e) db device_id of
                  (db1, (allowed, message)) \<Rightarrow>
                    allowed \<and>
                    (case get_next_available_key P (faults e) db1 of
                       Inl x \<Rightarrow> False
                     | Inr key \<Rightarrow> key \<noteq> None \<and> key \<noteq> Some [])))))"

text \<open>A field of the JSON object that a response carries.\<close>

definition response_field :: "response \<Rightarrow> string \<Rightarrow> json option" where
  "response_field resp name =
     (case fst resp of Body (JObj kvs) \<Rightarrow> map_of kvs name | _ \<Rightarrow> None)"

section \<open>Concrete inputs\<close>

definition no_faults :: store_faults where
  "no_faults = \<lparr> get_raises = False, set_raises = False, update_raises = False,
                  query_raises = False \<rparr>"

definition read_fault :: store_faults where
  "read_fault = no_faults\<lparr> get_raises := True \<rparr>"

definition write_fault :: store_faults where
  "write_fault = no_faults\<lparr> set_raises := True \<rparr>"

definition empty_db :: firestore where
  "empty_db = \<lparr> usage_tracking = Map.empty, shared_ai_keys = [] \<rparr>"

definition demo_platform :: platform where
  "demo_platform =
     \<lparr> sha256 = (\<lambda>s. of_nat (length s)),
       json_dumps = (\<lambda>j. ''{}''),
       isoformat = (\<lambda>t. ''1970-01-01T00:00:00''),
       py_repr = (\<lambda>j. ''?''),
       secret_versions = [''ai-key-k1'' \<mapsto> ''SECRET-1'', ''ai-key-k2'' \<mapsto> ''SECRET-2''] \<rparr>"

definition camera_request :: request where
  "camera_request =
     \<lparr> request_method = ''POST'', headers = [(''User-Agent'', ''camera/1.0'')],
       remote_addr = ''10.0.0.1'', args = [],
       body = Json (JObj [(''model'', JStr ''gemini-1.5-flash'')]) \<rparr>"

definition used_record :: usage_doc where
  "used_record =
     \<lparr> created_at = Some 0, total_requests = Some 3, successful_requests = Some 2,
       total_tokens = Some 40, last_request = Some 30000000,
       requests_this_minute = Some [10000000, 20000000, 30000000],
       requests_this_hour = Some [10000000, 20000000, 30000000],
       requests_this_day = Some [10000000, 20000000, 30000000] \<rparr>"

definition used_db :: firestore where
  "used_db = \<lparr> usage_tracking = [''f1'' \<mapsto> used_record], shared_ai_keys = [] \<rparr>"

definition exhausted_key :: key_doc where
  "exhausted_key =
     \<lparr> key_id = ''k1'', active = True, used_today = Some 5, daily_quota = Some 5,
       api_key = None \<rparr>"

definition spare_key :: key_doc where
  "spare_key =
     \<lparr> key_id = ''k2'', active = True, used_today = Some 7, daily_quota = Some 1000,
       api_key = None \<rparr>"

definition fresh_key :: key_doc where
  "fresh_key =
     \<lparr> key_id = ''k1'', active = True, used_today = Some 3, daily_quota = Some 1000,
       api_key = None \<rparr>"

definition camera_db :: firestore where
  "camera_db = \<lparr> usage_tracking = [''0000000000000000'' \<mapsto> used_record],
                  shared_ai_keys = [fresh_key] \<rparr>"

definition capped_db :: firestore where
  "capped_db =
     \<lparr> usage_tracking = [''0000000000000000'' \<mapsto> used_record\<lparr> total_requests := Some 1000 \<rparr>],
       shared_ai_keys = [fresh_key] \<rparr>"

definition first_db :: firestore where
  "first_db = \<lparr> usage_tracking = Map.empty, shared_ai_keys = [fresh_key] \<rparr>"

definition first_record :: usage_doc where
  "first_record =
     \<lparr> created_at = Some 100, total_requests = Some 0,
       successful_requests = None, total_tokens = None, last_request = None,
       requests_this_minute = Some [], requests_this_hour = Some [],
       requests_this_day = Some [] \<rparr>"

definition status_request :: request where
  "status_request =
     \<lparr> request_method = ''GET'', headers = [], remote_addr = ''10.0.0.1'',
       args = [(''device_id'', ''0000000000000000'')], body = NoJson \<rparr>"

definition good_run :: proxy_run where
  "good_run = \<lparr> check_time = 100, track_time = 101, faults = no_faults,
                 upstream = Succeeded (JObj []) 7 \<rparr>"

definition auth_request :: request where
  "auth_request =
     \<lparr> request_method = ''POST'', headers = [], remote_addr = ''10.0.0.1'', args = [],
       body = Json (JObj [(''device_id'', JStr ''cam-1'')]) \<rparr>"

definition array_request :: request where
  "array_request = auth_request\<lparr> body := Json (JArr [JNum 1]) \<rparr>"

definition unnamed_request :: request where
  "unnamed_request = auth_request\<lparr> body := Json (JObj [(''serial'', JStr ''cam-1'')]) \<rparr>"

definition working_sdk :: firebase_admin where
  "working_sdk = \<lparr> apps_initialized = True,
                    create_custom_token = (\<lambda>uid. Inr (TokenBytes (''token-for-'' @ uid))) \<rparr>"

section \<open>Quota check\<close>

lemma check_existing_unchanged:
  "usage_tracking db device_id \<noteq> None \<Longrightarrow> fst (check_rate_limits now f db device_id) = db"
  by (auto simp: check_rate_limits_def doc_get_def Let_def split: sum.splits)

lemma check_total_of:
  "total_of (fst (check_rate_limits now f db device_id)) dev = total_of db dev"
  by (auto simp: check_rate_limits_def doc_get_def doc_set_def Let_def total_of_def dict_get_def
      split: option.splits sum.splits)

lemma track_total_of:
  "total_of db dev \<le> total_of (track_usage now f db device_id success n) dev"
  by (auto simp: track_usage_def doc_update_def total_of_def dict_get_def Increment_def
      split: option.splits)

lemma ai_proxy_store:
  "fst (ai_proxy P e db r) = db \<or>
   (\<exists>dev. fst (ai_proxy P e db r) = fst (check_rate_limits (check_time e) (faults e) db dev)) \<or>
   (\<exists>dev s n. fst (ai_proxy P e db r) =
       track_usage (track_time e) (faults e)
         (fst (check_rate_limits (check_time e) (faults e) db dev)) dev s n)"
proof (cases "generate_device_id P r")
  case (Inl x)
  then have "fst (ai_proxy P e db r) = db"
    by (auto simp: ai_proxy_def split: sum.splits)
  then show ?thesis by simp
next
  case (Inr dev)
  obtain db1 allowed msg
    where c: "check_rate_limits (check_time e) (faults e) db dev = (db1, allowed, msg)"
    by (metis prod_cases3)
  then have f: "fst (check_rate_limits (check_time e) (faults e) db dev) = db1"
    by simp
  have "fst (ai_proxy P e db r) = db \<or> fst (ai_proxy P e db r) = db1 \<or>
        (\<exists>s n. fst (ai_proxy P e db r) = track_usage (track_time e) (faults e) db1 dev s n)"
    using Inr c
    by (auto simp: ai_proxy_def Let_def split: sum.splits proxy_result.splits)
  with f show ?thesis by blast
qed

lemma apply_operation_total_of: "total_of db dev \<le> total_of (apply_operation db op) dev"
proof (cases op)
  case (CheckQuota d now f)
  then show ?thesis by (simp add: check_total_of)
next
  case (RecordUsage d now f s n)
  then show ?thesis by (simp add: track_total_of)
next
  case (ProxyRequest P e r)
  from ai_proxy_store [of P e db r] show ?thesis
  proof (elim disjE exE)
    assume "fst (ai_proxy P e db r) = db"
    with ProxyRequest show ?thesis by simp
  next
    fix d assume "fst (ai_proxy P e db r) = fst (check_rate_limits (check_time e) (faults e) db d)"
    with ProxyRequest show ?thesis by (simp add: check_total_of)
  next
    fix d s n
    assume "fst (ai_proxy P e db r) =
       track_usage (track_time e) (faults e)
         (fst (check_rate_limits (check_time e) (faults e) db d)) d s n"
    with ProxyRequest track_total_of [of "fst (check_rate_limits (check_time e) (faults e) db d)" dev
        "track_time e" "faults e" d s n]
    show ?thesis by (simp add: check_total_of)
  qed
qed

lemma run_total_of: "total_of db dev \<le> total_of (foldl apply_operation db ops) dev"
proof (induction ops arbitrary: db)
  case Nil
  then show ?case by simp
next
  case (Cons op ops)
  have "total_of db dev \<le> total_of (apply_operation db op) dev"
    by (rule apply_operation_total_of)
  also have "\<dots> \<le> total_of (foldl apply_operation (apply_operation db op) ops) dev"
    by (rule Cons.IH)
  finally show ?case by simp
qed

lemma check_repeatedly_existing:
  "usage_tracking db device_id \<noteq> None \<Longrightarrow> check_repeatedly db device_id calls = db"
  unfolding check_repeatedly_def
  by (induction calls) (auto simp: check_existing_unchanged)

lemma mixed_comparison:
  "newer_than (stored_timestamps (Some (ts # window))) (Naive bound) =
     Inl (Exn (''can'' @ [CHR 0x27] @ ''t compare offset-naive and offset-aware datetimes''))"
  by (simp add: stored_timestamps_def dict_get_def)

text \<open>
  C1: the windows are never pruned and their ceilings are never reached. The bounds
  \<open>minute_ago\<close>, \<open>hour_ago\<close> and \<open>day_ago\<close> are naive, the stored timestamps come
  back timezone-aware, so the first comparison of a window that is not empty raises and
  the handler of line 111 answers \<open>Service error\<close>. A device with three requests in
  its windows, far below every ceiling, is denied with that reason instead of being
  allowed; so is the second request of any device, right after its first one was
  recorded.
\<close>

theorem check_rate_limits_mixed_datetimes:
  "check_rate_limits 65000000 no_faults used_db ''f1'' = (used_db, (False, ''Service error'')) \<and>
   snd (check_rate_limits 100 no_faults empty_db ''f1'') = (True, ''First time user'') \<and>
   snd (check_rate_limits 102 no_faults
          (track_usage 101 no_faults (fst (check_rate_limits 100 no_faults empty_db ''f1''))
             ''f1'' True 7) ''f1'') = (False, ''Service error'')"
proof -
  have used: "check_rate_limits 65000000 no_faults used_db ''f1''
                = (used_db, (False, ''Service error''))"
    by (simp add: check_rate_limits_def doc_get_def no_faults_def used_db_def used_record_def
        RATE_LIMITS_def dict_get_def stored_timestamps_def Let_def)
  have first: "check_rate_limits 100 no_faults empty_db ''f1'' =
                 (empty_db\<lparr>usage_tracking := [''f1'' \<mapsto> first_record]\<rparr>,
                  (True, ''First time user''))"
    by (simp add: check_rate_limits_def doc_get_def doc_set_def no_faults_def empty_db_def
        first_record_def)
  have tracked: "usage_tracking
                   (track_usage 101 no_faults (empty_db\<lparr>usage_tracking := [''f1'' \<mapsto> first_record]\<rparr>)
                      ''f1'' True 7) ''f1''
                 = Some (first_record\<lparr> total_requests := Some 1, successful_requests := Some 1,
                      total_tokens := Some 7, last_request := Some 101,
                      requests_this_minute := Some [101], requests_this_hour := Some [101],
                      requests_this_day := Some [101] \<rparr>)"
    by (simp add: track_usage_def doc_update_def no_faults_def Increment_def ArrayUnion_def
        dict_get_def first_record_def)
  have readable: "\<not> get_raises no_faults"
    by (simp add: no_faults_def)
  have second: "snd (check_rate_limits 102 no_faults
          (track_usage 101 no_faults (empty_db\<lparr>usage_tracking := [''f1'' \<mapsto> first_record]\<rparr>)
             ''f1'' True 7) ''f1'') = (False, ''Service error'')"
    using readable
    by (simp add: check_rate_limits_def doc_get_def tracked mixed_comparison RATE_LIMITS_def
        dict_get_def Let_def)
  from used first second show ?thesis by simp
qed

text \<open>
  C6: when the read of the usage document raises, or the document is absent and its
  initialisation raises, \<open>check_rate_limits\<close> denies with the reason
  \<open>Service error\<close> and leaves the store as it was.
\<close>

theorem check_rate_limits_fails_closed:
  assumes "get_raises f \<or> (usage_tracking db device_id = None \<and> set_raises f)"
  shows "check_rate_limits now f db device_id = (db, (False, ''Service error''))"
  using assms by (auto simp: check_rate_limits_def doc_get_def doc_set_def)

theorem check_rate_limits_fails_closed_witness:
  "(get_raises read_fault \<or> (usage_tracking used_db ''f1'' = None \<and> set_raises read_fault)) \<and>
   check_rate_limits 65000000 read_fault used_db ''f1'' = (used_db, (False, ''Service error'')) \<and>
   (get_raises write_fault \<or> (usage_tracking empty_db ''f1'' = None \<and> set_raises write_fault)) \<and>
   check_rate_limits 65000000 write_fault empty_db ''f1'' = (empty_db, (False, ''Service error''))"
proof -
  have r: "get_raises read_fault \<or> (usage_tracking used_db ''f1'' = None \<and> set_raises read_fault)"
    by (simp add: read_fault_def no_faults_def)
  have w: "get_raises write_fault \<or> (usage_tracking empty_db ''f1'' = None \<and> set_raises write_fault)"
    by (simp add: write_fault_def no_faults_def empty_db_def)
  show ?thesis
    using r w check_rate_limits_fails_closed [OF r, of 65000000]
      check_rate_limits_fails_closed [OF w, of 65000000]
    by simp
qed

text \<open>
  The first check of a device without a document writes one, so a check is not free of
  effects for every device.
\<close>

theorem repeated_checks_counterexample:
  "check_repeatedly empty_db ''f1'' [(5, no_faults)] \<noteq> empty_db"
proof
  assume "check_repeatedly empty_db ''f1'' [(5, no_faults)] = empty_db"
  then have "usage_tracking (check_repeatedly empty_db ''f1'' [(5, no_faults)]) ''f1''
             = usage_tracking empty_db ''f1''"
    by simp
  then show False
    by (simp add: check_repeatedly_def check_rate_limits_def doc_get_def doc_set_def
        empty_db_def no_faults_def)
qed

text \<open>
  C3: for a device that has a usage document, any number of calls of
  \<open>check_rate_limits\<close>, at any times and with or without store errors, leaves the whole
  store unchanged; for a device without one, a check whose store calls succeed writes
  the zeroed document and changes nothing else.
\<close>

theorem repeated_checks_keep_store:
  "(usage_tracking db device_id \<noteq> None \<longrightarrow> check_repeatedly db device_id calls = db) \<and>
   (usage_tracking db device_id = None \<and> \<not> get_raises f \<and> \<not> set_raises f \<longrightarrow>
      fst (check_rate_limits now f db device_id) =
        db\<lparr>usage_tracking := (usage_tracking db)(device_id \<mapsto>
              \<lparr> created_at = Some now, total_requests = Some 0,
                successful_requests = None, total_tokens = None, last_request = None,
                requests_this_minute = Some [], requests_this_hour = Some [],
                requests_this_day = Some [] \<rparr>)\<rparr>)"
proof (intro conjI impI)
  assume "usage_tracking db device_id \<noteq> None"
  then show "check_repeatedly db device_id calls = db"
    by (rule check_repeatedly_existing)
next
  assume new: "usage_tracking db device_id = None \<and> \<not> get_raises f \<and> \<not> set_raises f"
  then have "doc_get f db device_id = Inr None"
    by (simp add: doc_get_def)
  with new show "fst (check_rate_limits now f db device_id) =
        db\<lparr>usage_tracking := (usage_tracking db)(device_id \<mapsto>
              \<lparr> created_at = Some now, total_requests = Some 0,
                successful_requests = None, total_tokens = None, last_request = None,
                requests_this_minute = Some [], requests_this_hour = Some [],
                requests_this_day = Some [] \<rparr>)\<rparr>"
    by (simp add: check_rate_limits_def doc_set_def)
qed

theorem repeated_checks_keep_store_witness:
  "usage_tracking used_db ''f1'' \<noteq> None \<and>
   check_repeatedly used_db ''f1'' [(65000000, no_faults), (70000000, read_fault)] = used_db \<and>
   usage_tracking empty_db ''f1'' = None \<and> \<not> get_raises no_faults \<and> \<not> set_raises no_faults \<and>
   usage_tracking (fst (check_rate_limits 5 no_faults empty_db ''f1'')) ''f1'' =
     Some \<lparr> created_at = Some 5, total_requests = Some 0,
            successful_requests = None, total_tokens = None, last_request = None,
            requests_this_minute = Some [], requests_this_hour = Some [],
            requests_this_day = Some [] \<rparr>"
  using repeated_checks_keep_store [of used_db "''f1''" "[(65000000, no_faults), (70000000, read_fault)]"]
    repeated_checks_keep_store [of empty_db "''f1''" _ no_faults 5]
  by (simp add: used_db_def empty_db_def no_faults_def)

section \<open>Usage tracking\<close>

text \<open>
  \<open>ArrayUnion\<close> does not add a timestamp that a window already holds: a second
  request recorded at the same microsecond is counted in \<open>total_requests\<close> and in no
  window.
\<close>

theorem track_usage_append_counterexample:
  "map_option requests_this_minute
     (usage_tracking (track_usage 30000000 no_faults used_db ''f1'' True 5) ''f1'')
     = Some (Some [10000000, 20000000, 30000000]) \<and>
   map_option requests_this_minute
     (usage_tracking (track_usage 30000000 no_faults used_db ''f1'' True 5) ''f1'')
     \<noteq> Some (Some ([10000000, 20000000, 30000000] @ [30000000])) \<and>
   map_option total_requests
     (usage_tracking (track_usage 30000000 no_faults used_db ''f1'' True 5) ''f1'')
     = Some (Some 4)"
  by (simp add: track_usage_def doc_update_def Increment_def ArrayUnion_def dict_get_def
      used_db_def used_record_def no_faults_def)

text \<open>
  C5: for a device with a usage document, a call of \<open>track_usage\<close> whose
  update succeeds adds 1 to \<open>total_requests\<close>, adds 1 to \<open>successful_requests\<close>
  exactly when \<open>success\<close> holds, adds \<open>tokens_used\<close> to \<open>total_tokens\<close>, sets
  \<open>last_request\<close> to the current time, and puts the current time at the end of each of
  the three windows unless the window holds it already; nothing else changes. Over any
  sequence of quota checks, usage recordings and proxy requests the lifetime counter of
  a device never decreases.
\<close>

theorem track_usage_effect:
  "(usage_tracking db device_id = Some d \<and> \<not> update_raises f \<longrightarrow>
      track_usage now f db device_id success tokens_used =
        db\<lparr>usage_tracking := (usage_tracking db)(device_id \<mapsto>
              d\<lparr> total_requests := Some (dict_get (total_requests d) 0 + 1),
                 successful_requests :=
                   Some (dict_get (successful_requests d) 0 + (if success then 1 else 0)),
                 total_tokens := Some (dict_get (total_tokens d) 0 + tokens_used),
                 last_request := Some now,
                 requests_this_minute :=
                   Some (let w = dict_get (requests_this_minute d) []
                         in if now \<in> set w then w else w @ [now]),
                 requests_this_hour :=
                   Some (let w = dict_get (requests_this_hour d) []
                         in if now \<in> set w then w else w @ [now]),
                 requests_this_day :=
                   Some (let w = dict_get (requests_this_day d) []
                         in if now \<in> set w then w else w @ [now]) \<rparr>)\<rparr>) \<and>
   total_of db dev \<le> total_of (foldl apply_operation db ops) dev"
proof (intro conjI impI)
  assume rec: "usage_tracking db device_id = Some d \<and> \<not> update_raises f"
  have union: "\<And>field. ArrayUnion [now] field =
                 Some (let w = dict_get field [] in if now \<in> set w then w else w @ [now])"
    by (simp add: ArrayUnion_def Let_def)
  from rec show "track_usage now f db device_id success tokens_used =
        db\<lparr>usage_tracking := (usage_tracking db)(device_id \<mapsto>
              d\<lparr> total_requests := Some (dict_get (total_requests d) 0 + 1),
                 successful_requests :=
                   Some (dict_get (successful_requests d) 0 + (if success then 1 else 0)),
                 total_tokens := Some (dict_get (total_tokens d) 0 + tokens_used),
                 last_request := Some now,
                 requests_this_minute :=
                   Some (let w = dict_get (requests_this_minute d) []
                         in if now \<in> set w then w else w @ [now]),
                 requests_this_hour :=
                   Some (let w = dict_get (requests_this_hour d) []
                         in if now \<in> set w then w else w @ [now]),
                 requests_this_day :=
                   Some (let w = dict_get (requests_this_day d) []
                         in if now \<in> set w then w else w @ [now]) \<rparr>)\<rparr>"
    by (simp add: track_usage_def doc_update_def Increment_def union)
next
  show "total_of db dev \<le> total_of (foldl apply_operation db ops) dev"
    by (rule run_total_of)
qed

theorem track_usage_effect_witness:
  "usage_tracking used_db ''f1'' = Some used_record \<and> \<not> update_raises no_faults \<and>
   usage_tracking (track_usage 65000000 no_faults used_db ''f1'' True 5) ''f1'' =
     Some \<lparr> created_at = Some 0, total_requests = Some 4, successful_requests = Some 3,
            total_tokens = Some 45, last_request = Some 65000000,
            requests_this_minute = Some [10000000, 20000000, 30000000, 65000000],
            requests_this_hour = Some [10000000, 20000000, 30000000, 65000000],
            requests_this_day = Some [10000000, 20000000, 30000000, 65000000] \<rparr> \<and>
   total_of used_db ''f1'' \<le>
     total_of (foldl apply_operation used_db
                 [CheckQuota ''f1'' 65000000 no_faults, RecordUsage ''f1'' 65000000 no_faults False 0])
       ''f1''"
  using track_usage_effect [of used_db "''f1''" used_record no_faults 65000000 True 5 "''f1''"
      "[CheckQuota ''f1'' 65000000 no_faults, RecordUsage ''f1'' 65000000 no_faults False 0]"]
  by (simp add: used_db_def used_record_def no_faults_def dict_get_def)

section \<open>Fingerprint\<close>

lemma nibble_bound: "unat ((x :: 256 word) AND 15) < 16"
proof -
  have "x AND 15 \<le> 15"
    by (rule word_and_le1)
  also have "(15 :: 256 word) < 16"
    by simp
  finally have "x AND 15 < 16" .
  then show ?thesis
    by (simp add: word_less_nat_alt)
qed

lemma hex_digit_range: "n < 16 \<Longrightarrow> hex_digit n \<in> set ''0123456789abcdef''"
  unfolding hex_digit_def by (rule nth_mem) simp

lemma hexdigest_chars: "set (hexdigest w) \<subseteq> set ''0123456789abcdef''"
proof
  fix c assume "c \<in> set (hexdigest w)"
  then obtain i where "c = hex_digit (unat (drop_bit (4 * (63 - i)) w AND 15))"
    by (auto simp: hexdigest_def)
  then show "c \<in> set ''0123456789abcdef''"
    using hex_digit_range [OF nibble_bound] by simp
qed

lemma hexdigest_length: "length (hexdigest w) = 64"
  by (simp add: hexdigest_def)

lemma generate_device_id_signals:
  assumes "device_info_of r = Some info"
  shows "generate_device_id P r =
           Inr (take 16 (hexdigest (sha256 P
                  (source_ip r @ '':'' @ user_agent_of r @ '':'' @ json_dumps P info))))"
proof -
  from assms obtain kvs where b: "body r = Json (JObj kvs)"
    and i: "info = dict_get (map_of kvs ''device_info'') (JObj [])"
    by (auto simp: device_info_of_def split: req_body.splits json.splits)
  show ?thesis
    by (simp add: generate_device_id_def get_json_def py_get_def b i source_ip_def
        user_agent_of_def Let_def)
qed

text \<open>
  C4: two requests with the same source address, the same user agent and the same
  \<open>device_info\<close> get the same fingerprint from \<open>generate_device_id\<close>, whatever else
  they carry, and the fingerprint is a string of 16 lower-case hexadecimal digits.
\<close>

theorem generate_device_id_deterministic:
  assumes "device_info_of r1 = Some info" and "device_info_of r2 = Some info"
    and "source_ip r1 = source_ip r2" and "user_agent_of r1 = user_agent_of r2"
  shows "generate_device_id P r1 = generate_device_id P r2 \<and>
         (\<exists>fp. generate_device_id P r1 = Inr fp \<and> length fp = 16 \<and>
               set fp \<subseteq> set ''0123456789abcdef'')"
proof -
  let ?fp = "take 16 (hexdigest (sha256 P
                (source_ip r1 @ '':'' @ user_agent_of r1 @ '':'' @ json_dumps P info)))"
  have one: "generate_device_id P r1 = Inr ?fp"
    by (rule generate_device_id_signals [OF assms(1)])
  have two: "generate_device_id P r2 = Inr ?fp"
    using generate_device_id_signals [OF assms(2), of P] assms(3,4) by simp
  have len: "length ?fp = 16"
    by (simp add: hexdigest_length)
  have "set ?fp \<subseteq> set (hexdigest (sha256 P
                (source_ip r1 @ '':'' @ user_agent_of r1 @ '':'' @ json_dumps P info)))"
    by (rule set_take_subset)
  then have hex: "set ?fp \<subseteq> set ''0123456789abcdef''"
    using hexdigest_chars by blast
  from one two len hex show ?thesis by simp
qed

theorem generate_device_id_deterministic_witness:
  "device_info_of camera_request = Some (JObj []) \<and>
   device_info_of (camera_request\<lparr> args := [(''retry'', ''1'')],
                                    body := Json (JObj [(''model'', JStr ''gemini-pro'')]) \<rparr>)
     = Some (JObj []) \<and>
   source_ip camera_request =
     source_ip (camera_request\<lparr> args := [(''retry'', ''1'')],
                                body := Json (JObj [(''model'', JStr ''gemini-pro'')]) \<rparr>) \<and>
   user_agent_of camera_request =
     user_agent_of (camera_request\<lparr> args := [(''retry'', ''1'')],
                                    body := Json (JObj [(''model'', JStr ''gemini-pro'')]) \<rparr>) \<and>
   generate_device_id demo_platform camera_request =
     generate_device_id demo_platform
       (camera_request\<lparr> args := [(''retry'', ''1'')],
                         body := Json (JObj [(''model'', JStr ''gemini-pro'')]) \<rparr>) \<and>
   (\<exists>fp. generate_device_id demo_platform camera_request = Inr fp \<and> length fp = 16 \<and>
         set fp \<subseteq> set ''0123456789abcdef'')"
proof -
  let ?r2 = "camera_request\<lparr> args := [(''retry'', ''1'')],
                             body := Json (JObj [(''model'', JStr ''gemini-pro'')]) \<rparr>"
  have a: "device_info_of camera_request = Some (JObj [])"
    by (simp add: device_info_of_def camera_request_def dict_get_def)
  have b: "device_info_of ?r2 = Some (JObj [])"
    by (simp add: device_info_of_def dict_get_def)
  have c: "source_ip camera_request = source_ip ?r2"
    by (simp add: source_ip_def)
  have d: "user_agent_of camera_request = user_agent_of ?r2"
    by (simp add: user_agent_of_def)
  from generate_device_id_deterministic [OF a b c d, of demo_platform] a b c d
  show ?thesis by blast
qed

section \<open>Key pool\<close>

lemma small_digest: "take 16 (hexdigest 22) = ''0000000000000000''"
  by code_simp

lemma camera_fingerprint:
  "generate_device_id demo_platform camera_request = Inr ''0000000000000000''"
  by (simp add: generate_device_id_def get_json_def py_get_def camera_request_def
      demo_platform_def dict_get_def small_digest Let_def)

lemma check_keys:
  "shared_ai_keys (fst (check_rate_limits now f db device_id)) = shared_ai_keys db"
  by (auto simp: check_rate_limits_def doc_get_def doc_set_def Let_def
      split: option.splits sum.splits)

lemma track_keys:
  "shared_ai_keys (track_usage now f db device_id success n) = shared_ai_keys db"
  by (auto simp: track_usage_def doc_update_def split: option.splits)

lemma apply_operation_keys: "shared_ai_keys (apply_operation db op) = shared_ai_keys db"
proof (cases op)
  case (CheckQuota d now f)
  then show ?thesis by (simp add: check_keys)
next
  case (RecordUsage d now f s n)
  then show ?thesis by (simp add: track_keys)
next
  case (ProxyRequest P e r)
  have "shared_ai_keys (fst (ai_proxy P e db r)) = shared_ai_keys db"
    using ai_proxy_store [of P e db r] by (auto simp: check_keys track_keys)
  with ProxyRequest show ?thesis by simp
qed

lemma camera_method: "request_method camera_request = ''POST''"
  by (simp add: camera_request_def)

lemma camera_json:
  "get_json camera_request = Inr (Some (JObj [(''model'', JStr ''gemini-1.5-flash'')]))"
  by (simp add: get_json_def camera_request_def)

lemma first_keys: "shared_ai_keys first_db = [fresh_key]"
  by (simp add: first_db_def)

lemma first_check:
  "check_rate_limits 100 no_faults first_db ''0000000000000000''
     = (first_db\<lparr>usage_tracking := [''0000000000000000'' \<mapsto> first_record]\<rparr>,
        (True, ''First time user''))"
  by (simp add: check_rate_limits_def doc_get_def doc_set_def no_faults_def first_db_def
      first_record_def)

lemma fresh_pool:
  "shared_ai_keys db = [fresh_key] \<Longrightarrow>
     get_next_available_key demo_platform no_faults db = Inr (Some ''SECRET-1'')"
  by (simp add: get_next_available_key_def active_by_usage_def decrypt_key_def get_secret_def
      demo_platform_def no_faults_def fresh_key_def dict_get_def)

lemma first_served:
  "ai_proxy demo_platform good_run first_db camera_request =
     (track_usage 101 no_faults
        (first_db\<lparr>usage_tracking := [''0000000000000000'' \<mapsto> first_record]\<rparr>)
        ''0000000000000000'' True 7,
      (Body (JObj []), 200))"
  by (simp add: ai_proxy_def camera_method camera_json camera_fingerprint truthy_opt_def
      good_run_def first_check fresh_pool first_keys Let_def)

text \<open>
  C2: when the least-used active key has used up its own \<open>daily_quota\<close>, the second
  query of \<open>get_next_available_key\<close> asks for \<open>used_today < 1000\<close>, not for usage
  below each key's own quota. With a pool whose only key has used 5 of its 5 requests,
  the function hands out that key; with a second key that still has quota, it still
  hands out the exhausted one.
\<close>

theorem get_next_available_key_ignores_own_quota:
  "get_next_available_key demo_platform no_faults (empty_db\<lparr>shared_ai_keys := [exhausted_key]\<rparr>)
     = Inr (Some ''SECRET-1'') \<and>
   get_next_available_key demo_platform no_faults
       (empty_db\<lparr>shared_ai_keys := [exhausted_key, spare_key]\<rparr>)
     = Inr (Some ''SECRET-1'')"
  by (simp add: get_next_available_key_def active_by_usage_def active_below_1000_def
      decrypt_key_def get_secret_def demo_platform_def no_faults_def empty_db_def
      exhausted_key_def spare_key_def dict_get_def)

text \<open>
  The first request of a device, served with the only key of the pool, leaves
  \<open>used_today\<close> of that key at its old value.
\<close>

theorem served_request_counterexample:
  "usage_tracking first_db ''0000000000000000'' = None \<and>
   snd (snd (ai_proxy demo_platform good_run first_db camera_request)) = 200 \<and>
   map used_today (shared_ai_keys first_db) = [Some 3] \<and>
   map used_today
     (shared_ai_keys (fst (ai_proxy demo_platform good_run first_db camera_request))) = [Some 3]"
  by (simp add: first_served track_keys first_keys) (simp add: first_db_def fresh_key_def)

text \<open>
  C7: the handlers only read the key pool. Over any sequence of quota checks,
  usage recordings and proxy requests, served or not, every key document, and with it
  every \<open>used_today\<close>, stays as it was.
\<close>

theorem key_pool_is_read_only:
  "shared_ai_keys (foldl apply_operation db ops) = shared_ai_keys db"
proof (induction ops arbitrary: db)
  case Nil
  show ?case by simp
next
  case (Cons op ops)
  have "shared_ai_keys (foldl apply_operation (apply_operation db op) ops)
        = shared_ai_keys (apply_operation db op)"
    by (rule Cons.IH)
  then show ?case by (simp add: apply_operation_keys)
qed

section \<open>Denied requests\<close>

lemma check_denied_unchanged:
  "check_rate_limits now f db device_id = (db1, (False, msg)) \<Longrightarrow> db1 = db"
  by (auto simp: check_rate_limits_def doc_get_def doc_set_def Let_def
      split: option.splits if_splits sum.splits)

lemma denied_after_check:
  assumes "snd (snd (ai_proxy P e db r)) = 429 \<or> snd (snd (ai_proxy P e db r)) = 503"
  shows "\<exists>dev db1 allowed msg.
           generate_device_id P r = Inr dev \<and>
           check_rate_limits (check_time e) (faults e) db dev = (db1, (allowed, msg)) \<and>
           fst (ai_proxy P e db r) = db1 \<and>
           (snd (snd (ai_proxy P e db r)) = 429 \<longrightarrow> \<not> allowed)"
proof (cases "generate_device_id P r")
  case (Inl x)
  with assms show ?thesis
    by (auto simp: ai_proxy_def internal_server_error_def split: if_splits sum.splits)
next
  case (Inr dev)
  obtain db1 allowed msg
    where c: "check_rate_limits (check_time e) (faults e) db dev = (db1, (allowed, msg))"
    by (metis prod_cases3)
  from assms Inr c
  have "fst (ai_proxy P e db r) = db1 \<and> (snd (snd (ai_proxy P e db r)) = 429 \<longrightarrow> \<not> allowed)"
    by (auto simp: ai_proxy_def internal_server_error_def Let_def
        split: if_splits sum.splits proxy_result.splits)
  with Inr c show ?thesis by blast
qed

lemma reached_upstream:
  assumes "request_method r = ''POST''" and "get_json r = Inr j" and "truthy_opt j"
    and "generate_device_id P r = Inr dev"
    and "check_rate_limits (check_time e) (faults e) db dev = (db1, (True, msg))"
    and "get_next_available_key P (faults e) db1 = Inr (Some key)" and "key \<noteq> []"
  shows "fst (ai_proxy P e db r) =
           track_usage (track_time e) (faults e) db1 dev
             (result_success (upstream e)) (result_tokens_used (upstream e)) \<and>
         snd (snd (ai_proxy P e db r)) = (if result_success (upstream e) then 200 else 500)"
  using assms
  by (cases "upstream e") (simp_all add: ai_proxy_def Let_def)

lemma capped_check:
  "check_rate_limits 100 no_faults capped_db ''0000000000000000''
     = (capped_db, (False, ''Demo limit reached. Please upgrade to continue.''))"
  by (simp add: check_rate_limits_def doc_get_def no_faults_def capped_db_def used_record_def
      RATE_LIMITS_def dict_get_def)

lemma capped_status:
  "snd (snd (ai_proxy demo_platform good_run capped_db camera_request)) = 429"
  by (simp add: ai_proxy_def camera_method camera_json camera_fingerprint truthy_opt_def
      good_run_def capped_check)

lemma empty_check:
  "check_rate_limits 100 no_faults empty_db ''0000000000000000''
     = (empty_db\<lparr>usage_tracking := [''0000000000000000'' \<mapsto>
           \<lparr> created_at = Some 100, total_requests = Some 0,
             successful_requests = None, total_tokens = None, last_request = None,
             requests_this_minute = Some [], requests_this_hour = Some [],
             requests_this_day = Some [] \<rparr>]\<rparr>, (True, ''First time user''))"
  by (simp add: check_rate_limits_def doc_get_def doc_set_def no_faults_def empty_db_def)

lemma empty_pool:
  "shared_ai_keys db = [] \<Longrightarrow> get_next_available_key P no_faults db = Inr None"
  by (simp add: get_next_available_key_def active_by_usage_def no_faults_def)

lemma empty_keys: "shared_ai_keys empty_db = []"
  by (simp add: empty_db_def)

lemma empty_unavailable:
  "ai_proxy demo_platform good_run empty_db camera_request =
     (empty_db\<lparr>usage_tracking := [''0000000000000000'' \<mapsto>
           \<lparr> created_at = Some 100, total_requests = Some 0,
             successful_requests = None, total_tokens = None, last_request = None,
             requests_this_minute = Some [], requests_this_hour = Some [],
             requests_this_day = Some [] \<rparr>]\<rparr>,
      (Body (JObj [(''error'', JStr ''Service temporarily unavailable''),
                   (''message'', JStr ''No API keys available. Please try again later.'')]),
       503))"
  by (simp add: ai_proxy_def camera_method camera_json camera_fingerprint truthy_opt_def
      good_run_def empty_check empty_pool empty_keys)

text \<open>
  A first request of a device that ends in 503 leaves a usage document behind: the quota
  check wrote it before the key pool turned out to be empty, and the status endpoint
  reports the device as \<open>active\<close> instead of \<open>new\<close> afterwards.
\<close>

theorem unavailable_request_counterexample:
  "snd (snd (ai_proxy demo_platform good_run empty_db camera_request)) = 503 \<and>
   usage_tracking (fst (ai_proxy demo_platform good_run empty_db camera_request))
       ''0000000000000000''
     \<noteq> usage_tracking empty_db ''0000000000000000'' \<and>
   response_field (get_device_status demo_platform 200 no_faults empty_db status_request)
       ''status'' = Some (JStr ''new'') \<and>
   response_field
       (get_device_status demo_platform 200 no_faults
          (fst (ai_proxy demo_platform good_run empty_db camera_request)) status_request)
       ''status'' = Some (JStr ''active'')"
  by (simp add: empty_unavailable)
     (simp add: empty_db_def get_device_status_def status_request_def doc_get_def
        no_faults_def response_field_def dict_get_def RATE_LIMITS_def Let_def)

lemma passes_gates:
  assumes "reaches_upstream P e db r"
  shows "\<exists>dev. generate_device_id P r = Inr dev \<and>
           fst (ai_proxy P e db r) =
             track_usage (track_time e) (faults e)
               (fst (check_rate_limits (check_time e) (faults e) db dev)) dev
               (result_success (upstream e)) (result_tokens_used (upstream e)) \<and>
           snd (snd (ai_proxy P e db r)) = (if result_success (upstream e) then 200 else 500)"
proof -
  from assms obtain j dev
    where m: "request_method r = ''POST''" and j: "get_json r = Inr j" and t: "truthy_opt j"
      and g: "generate_device_id P r = Inr dev"
    by (auto simp: reaches_upstream_def split: sum.splits)
  obtain db1 allowed msg
    where c: "check_rate_limits (check_time e) (faults e) db dev = (db1, (allowed, msg))"
    by (metis prod_cases3)
  from assms m j t g c obtain key
    where a: "allowed" and k: "get_next_available_key P (faults e) db1 = Inr (Some key)"
      and n: "key \<noteq> []"
    by (auto simp: reaches_upstream_def split: sum.splits)
  from c a have c': "check_rate_limits (check_time e) (faults e) db dev = (db1, (True, msg))"
    by simp
  from reached_upstream [OF m j t g c' k n] g c show ?thesis
    by simp
qed

lemma stops_before_upstream:
  assumes "\<not> reaches_upstream P e db r"
  shows "fst (ai_proxy P e db r) = db \<or>
         (\<exists>dev. generate_device_id P r = Inr dev \<and>
                fst (ai_proxy P e db r) = fst (check_rate_limits (check_time e) (faults e) db dev))"
proof (cases "generate_device_id P r")
  case (Inl x)
  then have "fst (ai_proxy P e db r) = db"
    by (auto simp: ai_proxy_def split: sum.splits)
  then show ?thesis by simp
next
  case (Inr dev)
  obtain db1 allowed msg
    where c: "check_rate_limits (check_time e) (faults e) db dev = (db1, (allowed, msg))"
    by (metis prod_cases3)
  from assms Inr c have "fst (ai_proxy P e db r) = db \<or> fst (ai_proxy P e db r) = db1"
    by (auto simp: ai_proxy_def reaches_upstream_def Let_def split: sum.splits if_splits)
  with Inr c show ?thesis by auto
qed

lemma early_answers:
  assumes "snd (snd (ai_proxy P e db r)) = 204 \<or> snd (snd (ai_proxy P e db r)) = 400 \<or>
           snd (snd (ai_proxy P e db r)) = 405"
  shows "fst (ai_proxy P e db r) = db"
proof (cases "generate_device_id P r")
  case (Inl x)
  then show ?thesis
    by (auto simp: ai_proxy_def split: sum.splits)
next
  case (Inr dev)
  obtain db1 allowed msg
    where c: "check_rate_limits (check_time e) (faults e) db dev = (db1, (allowed, msg))"
    by (metis prod_cases3)
  from assms Inr c show ?thesis
    by (auto simp: ai_proxy_def internal_server_error_def Let_def
        split: sum.splits if_splits proxy_result.splits)
qed

lemma get_not_allowed:
  "ai_proxy P e db (camera_request\<lparr> request_method := ''GET'' \<rparr>) =
     (db, (Body (JObj [(''error'', JStr ''Method not allowed'')]), 405))"
  by (simp add: ai_proxy_def)

text \<open>
  C10: a request answered with 429 or 503 never reaches \<open>track_usage\<close>: the store it
  leaves is the one left by its quota check. That is the unchanged store whenever the
  status is 429 or the device had a usage document; for a device without one, a 503
  leaves the zeroed document that the check created. In every case the lifetime counter
  of the device reads as before. Usage is recorded only for the requests that reach the
  upstream call, whether that call succeeds (200) or fails (500): such a request leaves
  the store that \<open>track_usage\<close> makes of the one left by the check, and every other
  request leaves the unchanged store or the one left by its check; an answer with 204,
  400 or 405 leaves the unchanged store.
\<close>

theorem denied_request_is_not_tracked:
  "((snd (snd (ai_proxy P e db r)) = 429 \<or> snd (snd (ai_proxy P e db r)) = 503) \<longrightarrow>
      (\<exists>dev. generate_device_id P r = Inr dev \<and>
             fst (ai_proxy P e db r) = fst (check_rate_limits (check_time e) (faults e) db dev) \<and>
             (usage_tracking db dev \<noteq> None \<longrightarrow> fst (ai_proxy P e db r) = db) \<and>
             (snd (snd (ai_proxy P e db r)) = 429 \<longrightarrow> fst (ai_proxy P e db r) = db) \<and>
             total_of (fst (ai_proxy P e db r)) dev = total_of db dev)) \<and>
   (request_method r = ''POST'' \<and> get_json r = Inr j \<and> truthy_opt j \<and>
    generate_device_id P r = Inr dev' \<and>
    check_rate_limits (check_time e) (faults e) db dev' = (db1, (True, msg)) \<and>
    get_next_available_key P (faults e) db1 = Inr (Some key) \<and> key \<noteq> [] \<longrightarrow>
      fst (ai_proxy P e db r) =
        track_usage (track_time e) (faults e) db1 dev'
          (result_success (upstream e)) (result_tokens_used (upstream e)) \<and>
      snd (snd (ai_proxy P e db r)) = (if result_success (upstream e) then 200 else 500)) \<and>
   (reaches_upstream P e db r \<longrightarrow>
      (\<exists>dev. generate_device_id P r = Inr dev \<and>
             fst (ai_proxy P e db r) =
               track_usage (track_time e) (faults e)
                 (fst (check_rate_limits (check_time e) (faults e) db dev)) dev
                 (result_success (upstream e)) (result_tokens_used (upstream e)) \<and>
             snd (snd (ai_proxy P e db r)) = (if result_success (upstream e) then 200 else 500))) \<and>
   (\<not> reaches_upstream P e db r \<longrightarrow>
      fst (ai_proxy P e db r) = db \<or>
      (\<exists>dev. generate_device_id P r = Inr dev \<and>
             fst (ai_proxy P e db r) = fst (check_rate_limits (check_time e) (faults e) db dev))) \<and>
   (snd (snd (ai_proxy P e db r)) = 204 \<or> snd (snd (ai_proxy P e db r)) = 400 \<or>
    snd (snd (ai_proxy P e db r)) = 405 \<longrightarrow> fst (ai_proxy P e db r) = db)"
proof (intro conjI impI)
  assume "snd (snd (ai_proxy P e db r)) = 429 \<or> snd (snd (ai_proxy P e db r)) = 503"
  from denied_after_check [OF this]
  obtain dev db1' allowed m
    where g: "generate_device_id P r = Inr dev"
      and c: "check_rate_limits (check_time e) (faults e) db dev = (db1', (allowed, m))"
      and s: "fst (ai_proxy P e db r) = db1'"
      and d: "snd (snd (ai_proxy P e db r)) = 429 \<longrightarrow> \<not> allowed"
    by blast
  from c s have eq: "fst (ai_proxy P e db r) = fst (check_rate_limits (check_time e) (faults e) db dev)"
    by simp
  have ex: "usage_tracking db dev \<noteq> None \<longrightarrow> fst (ai_proxy P e db r) = db"
    using eq by (simp add: check_existing_unchanged)
  have den: "snd (snd (ai_proxy P e db r)) = 429 \<longrightarrow> fst (ai_proxy P e db r) = db"
    using c s d check_denied_unchanged [of "check_time e" "faults e" db dev db1' m] by auto
  have tot: "total_of (fst (ai_proxy P e db r)) dev = total_of db dev"
    using eq by (simp add: check_total_of)
  from g eq ex den tot
  show "\<exists>dev. generate_device_id P r = Inr dev \<and>
             fst (ai_proxy P e db r) = fst (check_rate_limits (check_time e) (faults e) db dev) \<and>
             (usage_tracking db dev \<noteq> None \<longrightarrow> fst (ai_proxy P e db r) = db) \<and>
             (snd (snd (ai_proxy P e db r)) = 429 \<longrightarrow> fst (ai_proxy P e db r) = db) \<and>
             total_of (fst (ai_proxy P e db r)) dev = total_of db dev"
    by blast
next
  assume a: "request_method r = ''POST'' \<and> get_json r = Inr j \<and> truthy_opt j \<and>
    generate_device_id P r = Inr dev' \<and>
    check_rate_limits (check_time e) (faults e) db dev' = (db1, (True, msg)) \<and>
    get_next_available_key P (faults e) db1 = Inr (Some key) \<and> key \<noteq> []"
  then show "fst (ai_proxy P e db r) =
        track_usage (track_time e) (faults e) db1 dev'
          (result_success (upstream e)) (result_tokens_used (upstream e))"
    using reached_upstream [of r j P dev' e db db1 msg key] by blast
  from a show "snd (snd (ai_proxy P e db r)) = (if result_success (upstream e) then 200 else 500)"
    using reached_upstream [of r j P dev' e db db1 msg key] by blast
next
  assume "reaches_upstream P e db r"
  then show "\<exists>dev. generate_device_id P r = Inr dev \<and>
             fst (ai_proxy P e db r) =
               track_usage (track_time e) (faults e)
                 (fst (check_rate_limits (check_time e) (faults e) db dev)) dev
                 (result_success (upstream e)) (result_tokens_used (upstream e)) \<and>
             snd (snd (ai_proxy P e db r)) = (if result_success (upstream e) then 200 else 500)"
    by (rule passes_gates)
next
  assume "\<not> reaches_upstream P e db r"
  then show "fst (ai_proxy P e db r) = db \<or>
      (\<exists>dev. generate_device_id P r = Inr dev \<and>
             fst (ai_proxy P e db r) = fst (check_rate_limits (check_time e) (faults e) db dev))"
    by (rule stops_before_upstream)
next
  assume "snd (snd (ai_proxy P e db r)) = 204 \<or> snd (snd (ai_proxy P e db r)) = 400 \<or>
    snd (snd (ai_proxy P e db r)) = 405"
  then show "fst (ai_proxy P e db r) = db"
    by (rule early_answers)
qed

theorem denied_request_is_not_tracked_witness:
  "(snd (snd (ai_proxy demo_platform good_run capped_db camera_request)) = 429 \<or>
    snd (snd (ai_proxy demo_platform good_run capped_db camera_request)) = 503) \<and>
   fst (ai_proxy demo_platform good_run capped_db camera_request) = capped_db \<and>
   (request_method camera_request = ''POST'' \<and>
    get_json camera_request = Inr (Some (JObj [(''model'', JStr ''gemini-1.5-flash'')])) \<and>
    truthy_opt (Some (JObj [(''model'', JStr ''gemini-1.5-flash'')])) \<and>
    generate_device_id demo_platform camera_request = Inr ''0000000000000000'' \<and>
    check_rate_limits (check_time good_run) (faults good_run) first_db ''0000000000000000''
      = (first_db\<lparr>usage_tracking := [''0000000000000000'' \<mapsto> first_record]\<rparr>,
         (True, ''First time user'')) \<and>
    get_next_available_key demo_platform (faults good_run)
        (first_db\<lparr>usage_tracking := [''0000000000000000'' \<mapsto> first_record]\<rparr>)
      = Inr (Some ''SECRET-1'') \<and>
    ''SECRET-1'' \<noteq> []) \<and>
   reaches_upstream demo_platform good_run first_db camera_request \<and>
   fst (ai_proxy demo_platform good_run first_db camera_request) =
     track_usage 101 no_faults
       (first_db\<lparr>usage_tracking := [''0000000000000000'' \<mapsto> first_record]\<rparr>)
       ''0000000000000000'' True 7 \<and>
   snd (snd (ai_proxy demo_platform good_run first_db camera_request)) = 200 \<and>
   \<not> reaches_upstream demo_platform good_run first_db
       (camera_request\<lparr> request_method := ''GET'' \<rparr>) \<and>
   snd (snd (ai_proxy demo_platform good_run first_db
               (camera_request\<lparr> request_method := ''GET'' \<rparr>))) = 405 \<and>
   fst (ai_proxy demo_platform good_run first_db
          (camera_request\<lparr> request_method := ''GET'' \<rparr>)) = first_db"
proof -
  let ?db1 = "first_db\<lparr>usage_tracking := [''0000000000000000'' \<mapsto> first_record]\<rparr>"
  let ?get = "camera_request\<lparr> request_method := ''GET'' \<rparr>"
  note t = denied_request_is_not_tracked
  have u: "upstream good_run = Succeeded (JObj []) 7" "track_time good_run = 101"
    "faults good_run = no_faults" "check_time good_run = 100"
    by (simp_all add: good_run_def)
  have d: "snd (snd (ai_proxy demo_platform good_run capped_db camera_request)) = 429"
    by (rule capped_status)
  have k: "get_next_available_key demo_platform no_faults ?db1 = Inr (Some ''SECRET-1'')"
    by (rule fresh_pool) (simp add: first_keys)
  have g: "request_method camera_request = ''POST'' \<and>
    get_json camera_request = Inr (Some (JObj [(''model'', JStr ''gemini-1.5-flash'')])) \<and>
    truthy_opt (Some (JObj [(''model'', JStr ''gemini-1.5-flash'')])) \<and>
    generate_device_id demo_platform camera_request = Inr ''0000000000000000'' \<and>
    check_rate_limits (check_time good_run) (faults good_run) first_db ''0000000000000000''
      = (?db1, (True, ''First time user'')) \<and>
    get_next_available_key demo_platform (faults good_run) ?db1 = Inr (Some ''SECRET-1'') \<and>
    ''SECRET-1'' \<noteq> []"
    by (simp add: camera_method camera_json camera_fingerprint truthy_opt_def u first_check k)
  have r: "reaches_upstream demo_platform good_run first_db camera_request"
    by (simp add: reaches_upstream_def camera_method camera_json camera_fingerprint
        truthy_opt_def u first_check k)
  have n: "\<not> reaches_upstream demo_platform good_run first_db ?get"
    by (simp add: reaches_upstream_def)
  have m: "snd (snd (ai_proxy demo_platform good_run first_db ?get)) = 405"
    by (simp add: get_not_allowed)
  from t [of demo_platform good_run capped_db camera_request] d
  have one: "fst (ai_proxy demo_platform good_run capped_db camera_request) = capped_db"
    by blast
  from t [of demo_platform good_run first_db camera_request
      "Some (JObj [(''model'', JStr ''gemini-1.5-flash'')])" "''0000000000000000''" ?db1
      "''First time user''" "''SECRET-1''"] g
  have two: "fst (ai_proxy demo_platform good_run first_db camera_request) =
        track_usage (track_time good_run) (faults good_run) ?db1 ''0000000000000000''
          (result_success (upstream good_run)) (result_tokens_used (upstream good_run)) \<and>
      snd (snd (ai_proxy demo_platform good_run first_db camera_request))
        = (if result_success (upstream good_run) then 200 else 500)"
    by blast
  from t [of demo_platform good_run first_db ?get] m
  have three: "fst (ai_proxy demo_platform good_run first_db ?get) = first_db"
    by blast
  from d one g r two u n m three show ?thesis by simp
qed

section \<open>Device status\<close>

lemma status_device_id:
  assumes "(map_of (args r) ''device_id'' = Some dev \<and> dev \<noteq> []) \<or>
           ((map_of (args r) ''device_id'' = None \<or> map_of (args r) ''device_id'' = Some []) \<and>
            generate_device_id P r = Inr dev)"
  shows "(if map_of (args r) ''device_id'' = None \<or> map_of (args r) ''device_id'' = Some []
          then generate_device_id P r
          else Inr (dict_get (map_of (args r) ''device_id'') [])) = Inr dev"
  using assms by (auto simp: dict_get_def)

lemma status_new:
  assumes "request_method r \<noteq> ''OPTIONS''"
    and "(map_of (args r) ''device_id'' = Some dev \<and> dev \<noteq> []) \<or>
         ((map_of (args r) ''device_id'' = None \<or> map_of (args r) ''device_id'' = Some []) \<and>
          generate_device_id P r = Inr dev)"
    and "\<not> get_raises f" and "usage_tracking db dev = None"
  shows "get_device_status P now f db r =
           (Body (JObj [(''device_id'', JStr dev), (''status'', JStr ''new''),
                        (''requests_used'', JNum 0), (''requests_remaining'', JNum 1000),
                        (''daily_limit'', JNum 500)]), 200)"
  using assms(1,3,4) status_device_id [OF assms(2)]
  by (simp add: get_device_status_def doc_get_def RATE_LIMITS_def Let_def)

lemma status_known:
  assumes "request_method r \<noteq> ''OPTIONS''"
    and "(map_of (args r) ''device_id'' = Some dev \<and> dev \<noteq> []) \<or>
         ((map_of (args r) ''device_id'' = None \<or> map_of (args r) ''device_id'' = Some []) \<and>
          generate_device_id P r = Inr dev)"
    and "\<not> get_raises f" and "usage_tracking db dev = Some d"
  shows "get_device_status P now f db r =
           (Body (JObj [(''device_id'', JStr dev),
                        (''status'', JStr (if dict_get (total_requests d) 0 < 1000
                                           then ''active'' else ''limit_reached'')),
                        (''requests_used'', JNum (dict_get (total_requests d) 0)),
                        (''requests_remaining'', JNum (max 0 (1000 - dict_get (total_requests d) 0))),
                        (''daily_limit'', JNum 500),
                        (''created_at'', JStr (isoformat P (dict_get (created_at d) now)))]), 200)"
  using assms(1,3,4) status_device_id [OF assms(2)]
  by (simp add: get_device_status_def doc_get_def RATE_LIMITS_def Let_def)

text \<open>
  The answer for a device without a usage document has no \<open>created_at\<close>.
\<close>

theorem new_device_status_counterexample:
  "snd (get_device_status demo_platform 200 no_faults empty_db status_request) = 200 \<and>
   response_field (get_device_status demo_platform 200 no_faults empty_db status_request)
     ''status'' = Some (JStr ''new'') \<and>
   response_field (get_device_status demo_platform 200 no_faults empty_db status_request)
     ''created_at'' = None"
  by (simp add: get_device_status_def status_request_def doc_get_def no_faults_def
      empty_db_def response_field_def dict_get_def RATE_LIMITS_def Let_def)

text \<open>
  C9: for a request that names the device (or whose fingerprint can be
  computed) and a store that can be read, \<open>get_device_status\<close> answers 200 with the
  fields \<open>device_id\<close>, \<open>status\<close>, \<open>requests_used\<close>, \<open>requests_remaining\<close> and
  \<open>daily_limit\<close>, and with \<open>created_at\<close> exactly when the device has a usage
  document. The status is \<open>new\<close> exactly when there is no document, \<open>active\<close> exactly
  when there is one with fewer than 1000 requests, and \<open>limit_reached\<close> otherwise;
  \<open>requests_remaining\<close> is \<open>max 0 (1000 - total_requests)\<close>.
\<close>

theorem get_device_status_fields:
  assumes "request_method r \<noteq> ''OPTIONS''"
    and "(map_of (args r) ''device_id'' = Some dev \<and> dev \<noteq> []) \<or>
         ((map_of (args r) ''device_id'' = None \<or> map_of (args r) ''device_id'' = Some []) \<and>
          generate_device_id P r = Inr dev)"
    and "\<not> get_raises f"
  shows "snd (get_device_status P now f db r) = 200 \<and>
         response_field (get_device_status P now f db r) ''device_id'' = Some (JStr dev) \<and>
         response_field (get_device_status P now f db r) ''status'' =
           Some (JStr (case usage_tracking db dev of
                         None \<Rightarrow> ''new''
                       | Some d \<Rightarrow> if dict_get (total_requests d) 0 < 1000
                                   then ''active'' else ''limit_reached'')) \<and>
         response_field (get_device_status P now f db r) ''requests_used'' =
           Some (JNum (total_of db dev)) \<and>
         response_field (get_device_status P now f db r) ''requests_remaining'' =
           Some (JNum (max 0 (1000 - total_of db dev))) \<and>
         response_field (get_device_status P now f db r) ''daily_limit'' = Some (JNum 500) \<and>
         response_field (get_device_status P now f db r) ''created_at'' =
           (case usage_tracking db dev of
              None \<Rightarrow> None
            | Some d \<Rightarrow> Some (JStr (isoformat P (dict_get (created_at d) now))))"
proof (cases "usage_tracking db dev")
  case None
  with status_new [OF assms None, of now] show ?thesis
    by (simp add: response_field_def total_of_def)
next
  case (Some d)
  with status_known [OF assms Some, of now] show ?thesis
    by (simp add: response_field_def total_of_def)
qed

theorem get_device_status_fields_witness:
  "request_method status_request \<noteq> ''OPTIONS'' \<and>
   ((map_of (args status_request) ''device_id'' = Some ''0000000000000000'' \<and>
     ''0000000000000000'' \<noteq> []) \<or>
    ((map_of (args status_request) ''device_id'' = None \<or>
      map_of (args status_request) ''device_id'' = Some []) \<and>
     generate_device_id demo_platform status_request = Inr ''0000000000000000'')) \<and>
   \<not> get_raises no_faults \<and>
   snd (get_device_status demo_platform 200 no_faults camera_db status_request) = 200 \<and>
   response_field (get_device_status demo_platform 200 no_faults camera_db status_request)
     ''status'' = Some (JStr ''active'') \<and>
   response_field (get_device_status demo_platform 200 no_faults camera_db status_request)
     ''requests_used'' = Some (JNum 3) \<and>
   response_field (get_device_status demo_platform 200 no_faults camera_db status_request)
     ''requests_remaining'' = Some (JNum 997) \<and>
   response_field (get_device_status demo_platform 200 no_faults camera_db status_request)
     ''created_at'' = Some (JStr ''1970-01-01T00:00:00'')"
proof -
  have m: "request_method status_request \<noteq> ''OPTIONS''"
    by (simp add: status_request_def)
  have a: "(map_of (args status_request) ''device_id'' = Some ''0000000000000000'' \<and>
     ''0000000000000000'' \<noteq> []) \<or>
    ((map_of (args status_request) ''device_id'' = None \<or>
      map_of (args status_request) ''device_id'' = Some []) \<and>
     generate_device_id demo_platform status_request = Inr ''0000000000000000'')"
    by (simp add: status_request_def)
  have g: "\<not> get_raises no_faults"
    by (simp add: no_faults_def)
  have u: "usage_tracking camera_db ''0000000000000000'' = Some used_record"
    by (simp add: camera_db_def)
  have t: "total_of camera_db ''0000000000000000'' = 3"
    by (simp add: total_of_def u used_record_def dict_get_def)
  have c: "dict_get (total_requests used_record) 0 = 3"
    "isoformat demo_platform (dict_get (created_at used_record) 200) = ''1970-01-01T00:00:00''"
    by (simp_all add: used_record_def dict_get_def demo_platform_def)
  from get_device_status_fields [OF m a g, of 200 camera_db] m a g
  show ?thesis
    by (simp add: u t c)
qed

section \<open>Device authentication\<close>

text \<open>
  C8: both handlers answer 400 to a POST whose JSON object carries no \<open>device_id\<close>,
  but a body that is JSON and not an object, such as the array \<open>[1]\<close>, is missing
  \<open>device_id\<close> as well and gets 500: the body is taken for true, \<open>.get\<close> raises
  \<open>AttributeError\<close> on it, and the handler that is meant for a failed signing
  answers, although no token was ever requested.
\<close>

theorem device_authenticator_array_body:
  "apps_initialized working_sdk \<and>
   request_method array_request = ''POST'' \<and> missing_device_id array_request \<and>
   device_authenticator_update demo_platform working_sdk array_request =
     (Body (JObj [(''error'',
                   JStr (''Token generation error: '' @ [CHR 0x27] @ ''list'' @ [CHR 0x27]
                         @ '' object has no attribute '' @ [CHR 0x27] @ ''get''
                         @ [CHR 0x27]))]), 500) \<and>
   device_authenticator demo_platform working_sdk array_request = (Text ''Token gen error'', 500) \<and>
   request_method unnamed_request = ''POST'' \<and> missing_device_id unnamed_request \<and>
   snd (device_authenticator_update demo_platform working_sdk unnamed_request) = 400 \<and>
   snd (device_authenticator demo_platform working_sdk unnamed_request) = 400"
proof -
  have sdk: "apps_initialized working_sdk"
    by (simp add: working_sdk_def)
  have arr: "request_method array_request = ''POST''" "body array_request = Json (JArr [JNum 1])"
    by (simp_all add: array_request_def auth_request_def)
  have obj: "request_method unnamed_request = ''POST''"
    "body unnamed_request = Json (JObj [(''serial'', JStr ''cam-1'')])"
    by (simp_all add: unnamed_request_def auth_request_def)
  have raised: "py_get (Some (JArr [JNum 1])) ''device_id'' = Inl (no_attribute_get ''list'')"
    by (simp add: py_get_def)
  have absent: "py_get (Some (JObj [(''serial'', JStr ''cam-1'')])) ''device_id'' = Inr None"
    by (simp add: py_get_def)
  have a1: "device_authenticator_update demo_platform working_sdk array_request =
     (Body (JObj [(''error'',
                   JStr (''Token generation error: '' @ [CHR 0x27] @ ''list'' @ [CHR 0x27]
                         @ '' object has no attribute '' @ [CHR 0x27] @ ''get''
                         @ [CHR 0x27]))]), 500)"
    by (simp add: device_authenticator_update_def sdk arr get_json_silent_def truthy_opt_def
        raised no_attribute_get_def)
  have a2: "device_authenticator demo_platform working_sdk array_request
              = (Text ''Token gen error'', 500)"
    by (simp add: device_authenticator_def sdk arr get_json_silent_def truthy_opt_def raised)
  have o1: "snd (device_authenticator_update demo_platform working_sdk unnamed_request) = 400"
    by (simp add: device_authenticator_update_def sdk obj get_json_silent_def truthy_opt_def
        absent)
  have o2: "snd (device_authenticator demo_platform working_sdk unnamed_request) = 400"
    by (simp add: device_authenticator_def sdk obj get_json_silent_def truthy_opt_def absent)
  have m: "missing_device_id array_request" "missing_device_id unnamed_request"
    by (simp_all add: missing_device_id_def arr obj truthy_opt_def)
  from sdk arr(1) obj(1) m a1 a2 o1 o2 show ?thesis by simp
qed

end
